theory Spec2Isabelle
  imports Main "HOL-Library.AList"
begin

section \<open>The German POS tagging service: data model\<close>

text \<open>
  The module \<^verbatim>\<open>german_pos_api.py\<close> wraps two pre-loaded NLP pipelines (spaCy, the primary,
  and Stanza, the backup) behind one request handler \<^verbatim>\<open>tag\<close>. The pipelines themselves are
  external libraries: what they return for a text is a parameter of the model, and so is
  every attribute the code reads from their documents.

  Python strings are modelled as \<^typ>\<open>string\<close>, one \<^typ>\<open>char\<close> per code point, which covers
  the code points below 256. Python's \<^verbatim>\<open>None\<close> is \<^const>\<open>None\<close>; a Python exception is a value
  of type \<open>exc\<close> carrying its message, and code that may raise returns \<open>exc + 'a\<close>.
\<close>

datatype exc = Exception string

fun str_exc :: "exc \<Rightarrow> string" where
  "str_exc (Exception m) = m"

text \<open>
  An attribute whose value the code does not check before calling a method on it:
  \<^verbatim>\<open>None\<close>, a string, or an object of another class, for which an integer stands.
\<close>

datatype pyval = PyNone | PyStr string | PyInt int

text \<open>A Python dict with string keys and values, in insertion order.\<close>

type_synonym pydict = "(string \<times> string) list"

subsection \<open>Engine documents\<close>

text \<open>
  A spaCy token, as far as \<^verbatim>\<open>spacy_to_tokens\<close> reads it: the attributes \<^verbatim>\<open>is_space\<close>,
  \<^verbatim>\<open>text\<close>, \<^verbatim>\<open>pos_\<close>, \<^verbatim>\<open>lemma_\<close> (fields \<open>s_text\<close>, \<open>s_pos\<close>, \<open>s_lemma\<close>) and the outcome of
  \<^verbatim>\<open>morph.to_dict()\<close>, which may raise.
  Iterating \<^verbatim>\<open>doc.sents\<close> may raise as well (a document without sentence boundaries).
\<close>

record spacy_token =
  is_space :: bool
  s_text :: string
  s_pos :: string
  s_lemma :: string
  morph_to_dict :: "exc + pydict"

record spacy_doc =
  sents :: "exc + spacy_token list list"

text \<open>
  A Stanza word: \<^verbatim>\<open>text\<close>, \<^verbatim>\<open>upos\<close>, \<^verbatim>\<open>lemma\<close> and \<^verbatim>\<open>feats\<close>. The lemma is a string, or
  \<^verbatim>\<open>None\<close> for a word the lemmatizer gave none. The features are a string of \<^verbatim>\<open>Key=Value\<close>
  pairs joined by \<^verbatim>\<open>|\<close>, or \<^verbatim>\<open>None\<close>; a word object holds any other value it is given as well.
\<close>

record stanza_word =
  w_text :: string
  upos :: string
  w_lemma :: "string option"
  feats :: pyval

record stanza_sentence =
  words :: "stanza_word list"

record stanza_doc =
  doc_sentences :: "stanza_sentence list"

subsection \<open>Request, response and module state\<close>

record TagRequest =
  req_text :: string
  splitSentences :: bool
  includeLemma :: bool
  includeMorph :: bool

text \<open>
  The token dict \<^verbatim>\<open>{"text": .., "pos": .., "lemma": .., "morph": ..}\<close>. The value under
  \<^verbatim>\<open>"lemma"\<close> is a string or \<^verbatim>\<open>None\<close> (JSON \<^verbatim>\<open>null\<close>).
\<close>

record token =
  t_text :: string
  t_pos :: string
  t_lemma :: "string option"
  t_morph :: pydict

record sentence =
  tokens :: "token list"

record response =
  model :: string
  transformer :: bool
  sentences :: "sentence list"

record HTTPException =
  status_code :: nat
  detail :: string

text \<open>
  The module-level names: \<^verbatim>\<open>SPACY_MODEL\<close>, and the two pipeline handles, each \<^verbatim>\<open>None\<close> when
  its model failed to load. A loaded pipeline maps a text to a document or raises.
\<close>

record globals =
  SPACY_MODEL :: string
  nlp_spacy :: "(string \<Rightarrow> exc + spacy_doc) option"
  nlp_stanza :: "(string \<Rightarrow> exc + stanza_doc) option"

definition STANZA_LANG :: string where
  "STANZA_LANG = ''de''"

text \<open>
  Module start: \<^verbatim>\<open>SPACY_MODEL = os.getenv("SPACY_MODEL", "de_core_news_lg")\<close>, then each
  model is loaded inside \<^verbatim>\<open>try\<close>/\<^verbatim>\<open>except\<close>, a failure leaving the handle \<^verbatim>\<open>None\<close>.
\<close>

definition getenv :: "(string \<rightharpoonup> string) \<Rightarrow> string \<Rightarrow> string \<Rightarrow> string" where
  "getenv env k dflt = (case env k of None \<Rightarrow> dflt | Some v \<Rightarrow> v)"

definition startup ::
  "(string \<rightharpoonup> string) \<Rightarrow> (string \<Rightarrow> exc + (string \<Rightarrow> exc + spacy_doc)) \<Rightarrow>
   (string \<Rightarrow> exc + (string \<Rightarrow> exc + stanza_doc)) \<Rightarrow> globals" where
  "startup env spacy_load stanza_Pipeline =
     (let m = getenv env ''SPACY_MODEL'' ''de_core_news_lg'' in
      \<lparr>SPACY_MODEL = m,
       nlp_spacy = (case spacy_load m of Inl e \<Rightarrow> None | Inr p \<Rightarrow> Some p),
       nlp_stanza = (case stanza_Pipeline STANZA_LANG of Inl e \<Rightarrow> None | Inr p \<Rightarrow> Some p)\<rparr>)"

section \<open>Python string and list primitives\<close>

text \<open>
  \<^verbatim>\<open>str.isspace\<close> on one character, for the code points below 256: TAB to CR, the four
  separators FS to US, the space, NEL and the no-break space.
\<close>

definition py_isspace :: "char \<Rightarrow> bool" where
  "py_isspace c \<longleftrightarrow>
     c \<in> set [CHR 0x09, CHR 0x0A, CHR 0x0B, CHR 0x0C, CHR 0x0D, CHR 0x1C, CHR 0x1D,
              CHR 0x1E, CHR 0x1F, CHR 0x20, CHR 0x85, CHR 0xA0]"

text \<open>\<^verbatim>\<open>s.isspace()\<close>: at least one character, and all of them whitespace.\<close>

definition str_isspace :: "string \<Rightarrow> bool" where
  "str_isspace s \<longleftrightarrow> s \<noteq> [] \<and> (\<forall>c \<in> set s. py_isspace c)"

text \<open>\<^verbatim>\<open>s.strip()\<close>: leading and trailing whitespace removed.\<close>

definition strip :: "string \<Rightarrow> string" where
  "strip s = rev (dropWhile py_isspace (rev (dropWhile py_isspace s)))"

text \<open>\<^verbatim>\<open>s.split(c)\<close> for a one-character separator: never an empty list.\<close>

fun split :: "char \<Rightarrow> string \<Rightarrow> string list" where
  "split c [] = [[]]"
| "split c (x # xs) =
     (if x = c then [] # split c xs
      else (case split c xs of [] \<Rightarrow> [[x]] | y # ys \<Rightarrow> (x # y) # ys))"

text \<open>\<^verbatim>\<open>xs[i]\<close> for \<^verbatim>\<open>i >= 0\<close>: raises IndexError out of range.\<close>

definition py_index :: "'a list \<Rightarrow> nat \<Rightarrow> exc + 'a" where
  "py_index xs i =
     (if i < length xs then Inr (xs ! i) else Inl (Exception ''list index out of range''))"

text \<open>The truth value of an object, as \<^verbatim>\<open>if\<close> and \<^verbatim>\<open>and\<close> test it.\<close>

fun truthy :: "pyval \<Rightarrow> bool" where
  "truthy PyNone = False"
| "truthy (PyStr s) = (s \<noteq> [])"
| "truthy (PyInt n) = (n \<noteq> 0)"

text \<open>The AttributeError raised for a method the object's class does not have.\<close>

definition attribute_error :: "string \<Rightarrow> string \<Rightarrow> exc" where
  "attribute_error cls name =
     Exception ([CHR 0x27] @ cls @ [CHR 0x27] @ '' object has no attribute '' @
                [CHR 0x27] @ name @ [CHR 0x27])"

text \<open>The method call \<^verbatim>\<open>v.split(c)\<close> on an unchecked value: only a string has the method.\<close>

fun py_split :: "pyval \<Rightarrow> char \<Rightarrow> exc + string list" where
  "py_split (PyStr s) c = Inr (split c s)"
| "py_split PyNone c = Inl (attribute_error ''NoneType'' ''split'')"
| "py_split (PyInt n) c = Inl (attribute_error ''int'' ''split'')"

section \<open>The primary engine's token contract\<close>

text \<open>
  spaCy is an external library, so what its documents hold is a premise wherever a
  property depends on it: a spaCy document holds no token with an empty text, and a
  token's \<^verbatim>\<open>is_space\<close> is \<^verbatim>\<open>text.isspace()\<close>.
\<close>

definition spacy_token_wf :: "spacy_token \<Rightarrow> bool" where
  "spacy_token_wf t \<longleftrightarrow> s_text t \<noteq> [] \<and> (is_space t \<longleftrightarrow> str_isspace (s_text t))"

section \<open>The normalizers\<close>

subsection \<open>spaCy\<close>

text \<open>
  The body of the inner loop of \<^verbatim>\<open>spacy_to_tokens\<close> for a token that is not skipped:
  \<^verbatim>\<open>morph\<close> starts empty, is filled from \<^verbatim>\<open>t.morph.to_dict()\<close> when \<^verbatim>\<open>include_morph\<close> holds,
  and is reset to empty by the \<^verbatim>\<open>except\<close> clause when that raises.
\<close>

definition spacy_morph :: "spacy_token \<Rightarrow> bool \<Rightarrow> pydict" where
  "spacy_morph t include_morph =
     (if include_morph
      then (case morph_to_dict t of Inl e \<Rightarrow> [] | Inr d \<Rightarrow> d)
      else [])"

definition spacy_token_dict :: "spacy_token \<Rightarrow> bool \<Rightarrow> bool \<Rightarrow> token" where
  "spacy_token_dict t include_lemma include_morph =
     \<lparr>t_text = s_text t,
      t_pos = s_pos t,
      t_lemma = (if include_lemma then Some (s_lemma t) else None),
      t_morph = spacy_morph t include_morph\<rparr>"

text \<open>The inner loop \<^verbatim>\<open>for t in sent\<close>, with the list \<^verbatim>\<open>toks\<close> it appends to.\<close>

fun spacy_sent_loop :: "spacy_token list \<Rightarrow> bool \<Rightarrow> bool \<Rightarrow> token list \<Rightarrow> token list" where
  "spacy_sent_loop [] include_lemma include_morph toks = toks"
| "spacy_sent_loop (t # ts) include_lemma include_morph toks =
     (if is_space t then spacy_sent_loop ts include_lemma include_morph toks
      else spacy_sent_loop ts include_lemma include_morph
             (toks @ [spacy_token_dict t include_lemma include_morph]))"

text \<open>The outer loop \<^verbatim>\<open>for sent in doc.sents\<close>, with the list \<^verbatim>\<open>sentences\<close>.\<close>

fun spacy_doc_loop ::
  "spacy_token list list \<Rightarrow> bool \<Rightarrow> bool \<Rightarrow> sentence list \<Rightarrow> sentence list" where
  "spacy_doc_loop [] include_lemma include_morph sentences_v = sentences_v"
| "spacy_doc_loop (sent # rest) include_lemma include_morph sentences_v =
     spacy_doc_loop rest include_lemma include_morph
       (sentences_v @ [\<lparr>tokens = spacy_sent_loop sent include_lemma include_morph []\<rparr>])"

definition spacy_to_tokens :: "spacy_doc \<Rightarrow> bool \<Rightarrow> bool \<Rightarrow> exc + sentence list" where
  "spacy_to_tokens doc include_lemma include_morph =
     (case sents doc of
        Inl e \<Rightarrow> Inl e
      | Inr ss \<Rightarrow> Inr (spacy_doc_loop ss include_lemma include_morph []))"

subsection \<open>Stanza\<close>

text \<open>
  The dict comprehension
  \<^verbatim>\<open>{kv.split("=")[0]: kv.split("=")[1] for kv in w.feats.split("|") if "=" in kv}\<close>,
  run over the list of pairs with the dict built so far. Storing under a key already
  present replaces its value in place (\<^const>\<open>AList.update\<close>); each index may raise.
\<close>

fun feats_comprehension :: "string list \<Rightarrow> pydict \<Rightarrow> exc + pydict" where
  "feats_comprehension [] d = Inr d"
| "feats_comprehension (kv # kvs) d =
     (if CHR ''='' \<in> set kv
      then (case py_index (split CHR ''='' kv) 0 of
              Inl e \<Rightarrow> Inl e
            | Inr k \<Rightarrow>
                (case py_index (split CHR ''='' kv) 1 of
                   Inl e \<Rightarrow> Inl e
                 | Inr v \<Rightarrow> feats_comprehension kvs (AList.update k v d)))
      else feats_comprehension kvs d)"

text \<open>
  \<^verbatim>\<open>feats = {}\<close>, replaced by the comprehension \<^verbatim>\<open>if include_morph and w.feats\<close>. No
  \<^verbatim>\<open>try\<close> surrounds it: what \<^verbatim>\<open>w.feats.split("|")\<close> or the comprehension raises leaves the
  function.
\<close>

definition stanza_feats :: "stanza_word \<Rightarrow> bool \<Rightarrow> exc + pydict" where
  "stanza_feats w include_morph =
     (if include_morph \<and> truthy (feats w)
      then (case py_split (feats w) CHR ''|'' of
              Inl e \<Rightarrow> Inl e
            | Inr kvs \<Rightarrow> feats_comprehension kvs [])
      else Inr [])"

fun stanza_sent_loop ::
  "stanza_word list \<Rightarrow> bool \<Rightarrow> bool \<Rightarrow> token list \<Rightarrow> exc + token list" where
  "stanza_sent_loop [] include_lemma include_morph toks = Inr toks"
| "stanza_sent_loop (w # ws) include_lemma include_morph toks =
     (if strip (w_text w) = [] then stanza_sent_loop ws include_lemma include_morph toks
      else (case stanza_feats w include_morph of
              Inl e \<Rightarrow> Inl e
            | Inr fs \<Rightarrow>
                stanza_sent_loop ws include_lemma include_morph
                  (toks @ [\<lparr>t_text = w_text w,
                            t_pos = upos w,
                            t_lemma = (if include_lemma then w_lemma w else None),
                            t_morph = fs\<rparr>])))"

fun stanza_doc_loop ::
  "stanza_sentence list \<Rightarrow> bool \<Rightarrow> bool \<Rightarrow> sentence list \<Rightarrow> exc + sentence list" where
  "stanza_doc_loop [] include_lemma include_morph sentences_v = Inr sentences_v"
| "stanza_doc_loop (s # rest) include_lemma include_morph sentences_v =
     (case stanza_sent_loop (words s) include_lemma include_morph [] of
        Inl e \<Rightarrow> Inl e
      | Inr toks \<Rightarrow>
          stanza_doc_loop rest include_lemma include_morph (sentences_v @ [\<lparr>tokens = toks\<rparr>]))"

definition stanza_to_tokens :: "stanza_doc \<Rightarrow> bool \<Rightarrow> bool \<Rightarrow> exc + sentence list" where
  "stanza_to_tokens doc include_lemma include_morph =
     stanza_doc_loop (doc_sentences doc) include_lemma include_morph []"

section \<open>The request handler\<close>

text \<open>
  What a request does besides returning: it invokes pipelines and prints error lines.
  Both are recorded, in order, in a trace.
\<close>

datatype event = Call_spacy string | Call_stanza string | Print string

text \<open>
  The block \<^verbatim>\<open>if nlp_spacy: try: ... except Exception as e: print(...)\<close>. It yields the
  response it returns, or \<^const>\<open>None\<close> when control falls through to the code after it.
\<close>

definition tag_spacy :: "globals \<Rightarrow> string \<Rightarrow> TagRequest \<Rightarrow> event list \<times> response option" where
  "tag_spacy g text_v req =
     (case nlp_spacy g of
        None \<Rightarrow> ([], None)
      | Some nlp \<Rightarrow>
          (case nlp text_v of
             Inl e \<Rightarrow> ([Call_spacy text_v, Print (''[ERR] spaCy failed: '' @ str_exc e)], None)
           | Inr doc \<Rightarrow>
               (case spacy_to_tokens doc (includeLemma req) (includeMorph req) of
                  Inl e \<Rightarrow>
                    ([Call_spacy text_v, Print (''[ERR] spaCy failed: '' @ str_exc e)], None)
                | Inr sents_v \<Rightarrow>
                    ([Call_spacy text_v],
                     Some \<lparr>model = SPACY_MODEL g, transformer = False, sentences = sents_v\<rparr>))))"

text \<open>The block \<^verbatim>\<open>if nlp_stanza: try: ... except Exception as e: print(...)\<close>.\<close>

definition tag_stanza :: "globals \<Rightarrow> string \<Rightarrow> TagRequest \<Rightarrow> event list \<times> response option" where
  "tag_stanza g text_v req =
     (case nlp_stanza g of
        None \<Rightarrow> ([], None)
      | Some nlp \<Rightarrow>
          (case nlp text_v of
             Inl e \<Rightarrow> ([Call_stanza text_v, Print (''[ERR] Stanza failed: '' @ str_exc e)], None)
           | Inr doc \<Rightarrow>
               (case stanza_to_tokens doc (includeLemma req) (includeMorph req) of
                  Inl e \<Rightarrow>
                    ([Call_stanza text_v, Print (''[ERR] Stanza failed: '' @ str_exc e)], None)
                | Inr sents_v \<Rightarrow>
                    ([Call_stanza text_v],
                     Some \<lparr>model = ''stanza-'' @ STANZA_LANG, transformer = True,
                           sentences = sents_v\<rparr>))))"

text \<open>
  \<^verbatim>\<open>tag(req)\<close>: the trace, and either the raised \<^verbatim>\<open>HTTPException\<close> or the returned dict.
\<close>

definition tag :: "globals \<Rightarrow> TagRequest \<Rightarrow> event list \<times> (HTTPException + response)" where
  "tag g req =
     (let text_v = strip (if req_text req \<noteq> [] then req_text req else []) in
      if text_v = [] then ([], Inl \<lparr>status_code = 400, detail = ''Empty text''\<rparr>)
      else
        (case tag_spacy g text_v req of
           (tr1, Some r) \<Rightarrow> (tr1, Inr r)
         | (tr1, None) \<Rightarrow>
             (case tag_stanza g text_v req of
                (tr2, Some r) \<Rightarrow> (tr1 @ tr2, Inr r)
              | (tr2, None) \<Rightarrow>
                  (tr1 @ tr2,
                   Inl \<lparr>status_code = 503, detail = ''No tagging provider available''\<rparr>))))"

text \<open>The pipeline invocations of a trace, in order.\<close>

fun is_call :: "event \<Rightarrow> bool" where
  "is_call (Call_spacy t) = True"
| "is_call (Call_stanza t) = True"
| "is_call (Print m) = False"

definition calls :: "event list \<Rightarrow> event list" where
  "calls tr = filter is_call tr"

section \<open>Example inputs\<close>

text \<open>
  A two-sentence document of each engine for the text "Der Hund": a determiner, a
  whitespace token and a noun, then a sentence holding only whitespace. The spaCy noun's
  \<^verbatim>\<open>morph.to_dict()\<close> raises.
\<close>

definition ex_token_der :: spacy_token where
  "ex_token_der =
     \<lparr>is_space = False, s_text = ''Der'', s_pos = ''DET'', s_lemma = ''der'',
      morph_to_dict = Inr [(''Case'', ''Nom''), (''Gender'', ''Masc'')]\<rparr>"

definition ex_token_space :: spacy_token where
  "ex_token_space =
     \<lparr>is_space = True, s_text = '' '', s_pos = ''SPACE'', s_lemma = '' '',
      morph_to_dict = Inr []\<rparr>"

definition ex_token_hund :: spacy_token where
  "ex_token_hund =
     \<lparr>is_space = False, s_text = ''Hund'', s_pos = ''NOUN'', s_lemma = ''Hund'',
      morph_to_dict = Inl (Exception ''morph unavailable'')\<rparr>"

definition ex_spacy_doc :: spacy_doc where
  "ex_spacy_doc =
     \<lparr>sents = Inr [[ex_token_der, ex_token_space, ex_token_hund], [ex_token_space]]\<rparr>"

definition ex_word_der :: stanza_word where
  "ex_word_der =
     \<lparr>w_text = ''Der'', upos = ''DET'', w_lemma = Some ''der'',
      feats = PyStr ''Case=Nom|Gender=Masc''\<rparr>"

definition ex_word_space :: stanza_word where
  "ex_word_space = \<lparr>w_text = '' '', upos = ''X'', w_lemma = Some '' '', feats = PyNone\<rparr>"

definition ex_word_hund :: stanza_word where
  "ex_word_hund =
     \<lparr>w_text = ''Hund'', upos = ''NOUN'', w_lemma = Some ''Hund'',
      feats = PyStr ''Number=Sing''\<rparr>"

definition ex_stanza_doc :: stanza_doc where
  "ex_stanza_doc =
     \<lparr>doc_sentences =
        [\<lparr>words = [ex_word_der, ex_word_space, ex_word_hund]\<rparr>,
         \<lparr>words = [ex_word_space]\<rparr>]\<rparr>"

text \<open>A request for the text " Der Hund " and a module state with the given handles.\<close>

definition ex_request :: "bool \<Rightarrow> bool \<Rightarrow> TagRequest" where
  "ex_request il im =
     \<lparr>req_text = '' Der Hund '', splitSentences = True, includeLemma = il,
      includeMorph = im\<rparr>"

definition ex_globals ::
  "(string \<Rightarrow> exc + spacy_doc) option \<Rightarrow> (string \<Rightarrow> exc + stanza_doc) option \<Rightarrow> globals" where
  "ex_globals p s = \<lparr>SPACY_MODEL = ''de_core_news_lg'', nlp_spacy = p, nlp_stanza = s\<rparr>"

text \<open>The unified tokens and sentences the two normalizers give for these documents.\<close>

definition ex_out_der :: "bool \<Rightarrow> bool \<Rightarrow> token" where
  "ex_out_der il im =
     \<lparr>t_text = ''Der'', t_pos = ''DET'', t_lemma = (if il then Some ''der'' else None),
      t_morph = (if im then [(''Case'', ''Nom''), (''Gender'', ''Masc'')] else [])\<rparr>"

definition ex_out_hund :: "bool \<Rightarrow> pydict \<Rightarrow> token" where
  "ex_out_hund il m =
     \<lparr>t_text = ''Hund'', t_pos = ''NOUN'', t_lemma = (if il then Some ''Hund'' else None),
      t_morph = m\<rparr>"

definition ex_spacy_sentences :: "bool \<Rightarrow> bool \<Rightarrow> sentence list" where
  "ex_spacy_sentences il im =
     [\<lparr>tokens = [ex_out_der il im, ex_out_hund il []]\<rparr>, \<lparr>tokens = []\<rparr>]"

definition ex_stanza_sentences :: "bool \<Rightarrow> bool \<Rightarrow> sentence list" where
  "ex_stanza_sentences il im =
     [\<lparr>tokens = [ex_out_der il im,
                 ex_out_hund il (if im then [(''Number'', ''Sing'')] else [])]\<rparr>,
      \<lparr>tokens = []\<rparr>]"

text \<open>A word whose feature string has a value containing the separator of key and value.\<close>

definition ex_word_eq :: stanza_word where
  "ex_word_eq =
     \<lparr>w_text = ''x'', upos = ''X'', w_lemma = Some ''x'', feats = PyStr ''K=a=b''\<rparr>"

text \<open>A word the lemmatizer gave no lemma, and a word whose features are not a string.\<close>

definition ex_word_nolemma :: stanza_word where
  "ex_word_nolemma =
     \<lparr>w_text = ''Xyz'', upos = ''X'', w_lemma = None, feats = PyNone\<rparr>"

definition ex_word_intfeats :: stanza_word where
  "ex_word_intfeats =
     \<lparr>w_text = ''Hund'', upos = ''NOUN'', w_lemma = Some ''Hund'', feats = PyInt 7\<rparr>"

section \<open>Properties of the primitives and the loops\<close>

subsection \<open>Splitting\<close>

text \<open>
  The first piece of a split is the text before the first separator; when a separator
  occurs, the second piece is the text between the first separator and the next one.
\<close>

lemma split_nonempty: "split c s \<noteq> []"
  by (induction s) (simp_all split: list.splits)

lemma split_unfold:
  "split c s =
     takeWhile (\<lambda>x. x \<noteq> c) s #
       (if c \<in> set s then split c (tl (dropWhile (\<lambda>x. x \<noteq> c) s)) else [])"
proof (induction s)
  case Nil
  show ?case by simp
next
  case (Cons x xs)
  show ?case
  proof (cases "x = c")
    case True
    then show ?thesis by simp
  next
    case False
    then show ?thesis using Cons by (simp split: list.splits)
  qed
qed

lemma split_index0: "py_index (split c s) 0 = Inr (takeWhile (\<lambda>x. x \<noteq> c) s)"
  by (subst split_unfold) (simp add: py_index_def)

lemma split_index1:
  assumes "c \<in> set s"
  shows "py_index (split c s) (Suc 0) =
           Inr (takeWhile (\<lambda>x. x \<noteq> c) (tl (dropWhile (\<lambda>x. x \<noteq> c) s)))"
proof -
  let ?r = "tl (dropWhile (\<lambda>x. x \<noteq> c) s)"
  have "split c s = takeWhile (\<lambda>x. x \<noteq> c) s # split c ?r"
    using assms by (subst split_unfold) simp
  moreover have "split c ?r = takeWhile (\<lambda>x. x \<noteq> c) ?r #
       (if c \<in> set ?r then split c (tl (dropWhile (\<lambda>x. x \<noteq> c) ?r)) else [])"
    by (rule split_unfold)
  ultimately show ?thesis by (simp add: py_index_def)
qed

lemma feats_comprehension_eq:
  "feats_comprehension kvs d =
     Inr (fold (\<lambda>kv. AList.update (takeWhile (\<lambda>x. x \<noteq> CHR ''='') kv)
                  (takeWhile (\<lambda>x. x \<noteq> CHR ''='') (tl (dropWhile (\<lambda>x. x \<noteq> CHR ''='') kv))))
             (filter (\<lambda>kv. CHR ''='' \<in> set kv) kvs) d)"
  by (induction kvs arbitrary: d) (simp_all add: split_index0 split_index1)

subsection \<open>The spaCy loops as maps\<close>

lemma spacy_sent_loop_eq:
  "spacy_sent_loop ts il im toks =
     toks @ map (\<lambda>t. spacy_token_dict t il im) (filter (\<lambda>t. \<not> is_space t) ts)"
  by (induction ts arbitrary: toks) simp_all

lemma spacy_doc_loop_eq:
  "spacy_doc_loop ss il im acc =
     acc @ map (\<lambda>sent. \<lparr>tokens = spacy_sent_loop sent il im []\<rparr>) ss"
  by (induction ss arbitrary: acc) simp_all

subsection \<open>When the Stanza loops raise\<close>

text \<open>
  The feature extraction raises exactly when it is asked for and the features are a
  true value that is not a string. On a string or \<^verbatim>\<open>None\<close> every index of the comprehension
  is in range and nothing is raised.
\<close>

lemma stanza_feats_no_morph: "stanza_feats w False = Inr []"
  by (simp add: stanza_feats_def)

lemma stanza_feats_total: "\<forall>n. feats w \<noteq> PyInt n \<Longrightarrow> \<exists>d. stanza_feats w im = Inr d"
  by (cases "feats w") (simp_all add: stanza_feats_def feats_comprehension_eq)

lemma stanza_feats_raises_iff:
  "(\<exists>e. stanza_feats w im = Inl e) \<longleftrightarrow> im \<and> (\<exists>n. feats w = PyInt n \<and> n \<noteq> 0)"
  by (cases "feats w") (auto simp add: stanza_feats_def feats_comprehension_eq)

lemma stanza_sent_loop_total:
  "\<forall>w \<in> set ws. \<forall>n. feats w \<noteq> PyInt n \<Longrightarrow> \<exists>out. stanza_sent_loop ws il im toks = Inr out"
proof (induction ws arbitrary: toks)
  case Nil
  show ?case by simp
next
  case (Cons w ws)
  from Cons.prems have "\<forall>n. feats w \<noteq> PyInt n" by simp
  then obtain d where "stanza_feats w im = Inr d" using stanza_feats_total by blast
  moreover from Cons.prems have "\<forall>w \<in> set ws. \<forall>n. feats w \<noteq> PyInt n" by simp
  ultimately show ?case using Cons.IH by simp
qed

lemma stanza_doc_loop_total:
  "\<forall>s \<in> set ss. \<forall>w \<in> set (words s). \<forall>n. feats w \<noteq> PyInt n \<Longrightarrow>
   \<exists>out. stanza_doc_loop ss il im acc = Inr out"
proof (induction ss arbitrary: acc)
  case Nil
  show ?case by simp
next
  case (Cons s ss)
  from Cons.prems have "\<forall>w \<in> set (words s). \<forall>n. feats w \<noteq> PyInt n" by simp
  then obtain toks where "stanza_sent_loop (words s) il im [] = Inr toks"
    using stanza_sent_loop_total by blast
  moreover from Cons.prems
  have "\<forall>s \<in> set ss. \<forall>w \<in> set (words s). \<forall>n. feats w \<noteq> PyInt n" by simp
  ultimately show ?case using Cons.IH by simp
qed



subsection \<open>What the Stanza loops return\<close>

lemma stanza_sent_loop_tokens:
  "stanza_sent_loop ws il im toks = Inr out \<Longrightarrow> t \<in> set out \<Longrightarrow>
   t \<in> set toks \<or>
   (\<exists>w \<in> set ws. strip (w_text w) \<noteq> [] \<and> stanza_feats w im = Inr (t_morph t) \<and>
      t_text t = w_text w \<and> t_pos t = upos w \<and>
      t_lemma t = (if il then w_lemma w else None))"
proof (induction ws arbitrary: toks)
  case Nil
  then show ?case by simp
next
  case (Cons w ws)
  show ?case
  proof (cases "strip (w_text w) = []")
    case True
    then show ?thesis using Cons by auto
  next
    case False
    show ?thesis
    proof (cases "stanza_feats w im")
      case (Inl a)
      with Cons.prems(1) False show ?thesis by simp
    next
      case (Inr d)
      let ?tk = "\<lparr>t_text = w_text w, t_pos = upos w,
                  t_lemma = (if il then w_lemma w else None), t_morph = d\<rparr>"
      from Cons.prems(1) False Inr
      have "stanza_sent_loop ws il im (toks @ [?tk]) = Inr out" by simp
      from Cons.IH [OF this Cons.prems(2)]
      show ?thesis using False Inr by auto
    qed
  qed
qed

lemma stanza_sent_loop_texts:
  "stanza_sent_loop ws il im toks = Inr out \<Longrightarrow>
   map t_text out = map t_text toks @ map w_text (filter (\<lambda>w. strip (w_text w) \<noteq> []) ws)"
proof (induction ws arbitrary: toks)
  case Nil
  then show ?case by simp
next
  case (Cons w ws)
  show ?case
  proof (cases "strip (w_text w) = []")
    case True
    then show ?thesis using Cons by simp
  next
    case False
    show ?thesis
    proof (cases "stanza_feats w im")
      case (Inl a)
      with Cons.prems False show ?thesis by simp
    next
      case (Inr d)
      let ?tk = "\<lparr>t_text = w_text w, t_pos = upos w,
                  t_lemma = (if il then w_lemma w else None), t_morph = d\<rparr>"
      from Cons.prems False Inr
      have "stanza_sent_loop ws il im (toks @ [?tk]) = Inr out" by simp
      from Cons.IH [OF this] show ?thesis using False by simp
    qed
  qed
qed

lemma stanza_doc_loop_eq:
  "stanza_doc_loop ss il im acc = Inr out \<Longrightarrow>
   \<exists>new. out = acc @ new \<and>
     list_all2 (\<lambda>s r. stanza_sent_loop (words s) il im [] = Inr (tokens r)) ss new"
proof (induction ss arbitrary: acc)
  case Nil
  then show ?case by simp
next
  case (Cons s ss)
  show ?case
  proof (cases "stanza_sent_loop (words s) il im []")
    case (Inl a)
    with Cons.prems show ?thesis by simp
  next
    case (Inr toks)
    with Cons.prems have "stanza_doc_loop ss il im (acc @ [\<lparr>tokens = toks\<rparr>]) = Inr out"
      by simp
    from Cons.IH [OF this] obtain new where
      n: "out = (acc @ [\<lparr>tokens = toks\<rparr>]) @ new"
         "list_all2 (\<lambda>s r. stanza_sent_loop (words s) il im [] = Inr (tokens r)) ss new"
      by blast
    have "out = acc @ (\<lparr>tokens = toks\<rparr> # new)" using n(1) by simp
    moreover have
      "list_all2 (\<lambda>s r. stanza_sent_loop (words s) il im [] = Inr (tokens r)) (s # ss)
         (\<lparr>tokens = toks\<rparr> # new)"
      using n(2) Inr by simp
    ultimately show ?thesis by blast
  qed
qed

subsection \<open>Trimming\<close>

text \<open>A text trims to the empty string exactly when all its characters are whitespace.\<close>

lemma strip_empty_iff: "strip s = [] \<longleftrightarrow> (\<forall>c \<in> set s. py_isspace c)"
proof
  assume "strip s = []"
  then have a: "\<forall>x \<in> set (dropWhile py_isspace s). py_isspace x"
    by (simp add: strip_def dropWhile_eq_Nil_conv)
  have "dropWhile py_isspace s = []"
  proof (rule ccontr)
    assume n: "dropWhile py_isspace s \<noteq> []"
    then have "\<not> py_isspace (hd (dropWhile py_isspace s))" by (rule hd_dropWhile)
    moreover have "hd (dropWhile py_isspace s) \<in> set (dropWhile py_isspace s)"
      using n by simp
    ultimately show False using a by blast
  qed
  then show "\<forall>c \<in> set s. py_isspace c" by (simp add: dropWhile_eq_Nil_conv)
next
  assume "\<forall>c \<in> set s. py_isspace c"
  then show "strip s = []"
    by (auto simp: strip_def dropWhile_eq_Nil_conv dest: set_dropWhileD)
qed

lemma spacy_token_wf_skip: "spacy_token_wf t \<Longrightarrow> is_space t \<longleftrightarrow> strip (s_text t) = []"
  by (auto simp: spacy_token_wf_def str_isspace_def strip_empty_iff)

subsection \<open>Where the tokens of a normalized document come from\<close>


lemma spacy_to_tokens_Inr:
  "spacy_to_tokens doc il im = Inr out \<Longrightarrow>
   \<exists>ss. sents doc = Inr ss \<and>
     out = map (\<lambda>sent. \<lparr>tokens = map (\<lambda>t. spacy_token_dict t il im)
                                     (filter (\<lambda>t. \<not> is_space t) sent)\<rparr>) ss"
  by (cases "sents doc") (simp_all add: spacy_to_tokens_def spacy_doc_loop_eq spacy_sent_loop_eq)

lemma spacy_token_in:
  assumes "spacy_to_tokens doc il im = Inr out" "s \<in> set out" "t \<in> set (tokens s)"
  shows "\<exists>ss sent e. sents doc = Inr ss \<and> sent \<in> set ss \<and> e \<in> set sent \<and> \<not> is_space e \<and>
           t = spacy_token_dict e il im"
proof -
  from spacy_to_tokens_Inr [OF assms(1)] obtain ss where
    ss: "sents doc = Inr ss"
        "out = map (\<lambda>sent. \<lparr>tokens = map (\<lambda>t. spacy_token_dict t il im)
                                     (filter (\<lambda>t. \<not> is_space t) sent)\<rparr>) ss"
    by blast
  from assms(2) ss(2) obtain sent where
    sent: "sent \<in> set ss"
          "s = \<lparr>tokens = map (\<lambda>t. spacy_token_dict t il im) (filter (\<lambda>t. \<not> is_space t) sent)\<rparr>"
    by auto
  from assms(3) sent(2) obtain e where "e \<in> set sent" "\<not> is_space e" "t = spacy_token_dict e il im"
    by auto
  with ss(1) sent(1) show ?thesis by blast
qed

lemma stanza_to_tokens_all2:
  "stanza_to_tokens doc il im = Inr out \<Longrightarrow>
   list_all2 (\<lambda>s r. stanza_sent_loop (words s) il im [] = Inr (tokens r)) (doc_sentences doc) out"
  using stanza_doc_loop_eq [of "doc_sentences doc" il im "[]" out]
  by (simp add: stanza_to_tokens_def)

lemma stanza_token_in:
  assumes "stanza_to_tokens doc il im = Inr out" "s \<in> set out" "t \<in> set (tokens s)"
  shows "\<exists>sen w. sen \<in> set (doc_sentences doc) \<and> w \<in> set (words sen) \<and>
           strip (w_text w) \<noteq> [] \<and> stanza_feats w im = Inr (t_morph t) \<and>
           t_text t = w_text w \<and> t_pos t = upos w \<and>
           t_lemma t = (if il then w_lemma w else None)"
proof -
  note a2 = stanza_to_tokens_all2 [OF assms(1)]
  from assms(2) obtain i where i: "i < length out" "out ! i = s"
    by (auto simp: in_set_conv_nth)
  from a2 i have len: "i < length (doc_sentences doc)"
    and run: "stanza_sent_loop (words (doc_sentences doc ! i)) il im [] = Inr (tokens s)"
    by (auto simp: list_all2_conv_all_nth)
  from stanza_sent_loop_tokens [OF run assms(3)] obtain w where
    "w \<in> set (words (doc_sentences doc ! i))" "strip (w_text w) \<noteq> []"
    "stanza_feats w im = Inr (t_morph t)" "t_text t = w_text w" "t_pos t = upos w"
    "t_lemma t = (if il then w_lemma w else None)"
    by auto
  moreover have "doc_sentences doc ! i \<in> set (doc_sentences doc)" using len by simp
  ultimately show ?thesis by blast
qed

lemma list_all2_map_eq: "list_all2 (\<lambda>x y. f x = h y) xs ys \<Longrightarrow> map f xs = map h ys"
  by (induction rule: list_all2_induct) simp_all

lemma stanza_to_tokens_texts:
  assumes "stanza_to_tokens doc il im = Inr out"
  shows "map (\<lambda>s. map t_text (tokens s)) out =
           map (\<lambda>sen. map w_text (filter (\<lambda>w. strip (w_text w) \<noteq> []) (words sen)))
             (doc_sentences doc)"
proof -
  from stanza_to_tokens_all2 [OF assms]
  have "list_all2 (\<lambda>s r. map w_text (filter (\<lambda>w. strip (w_text w) \<noteq> []) (words s)) =
                          map t_text (tokens r)) (doc_sentences doc) out"
  proof (rule list_all2_mono)
    fix s r assume "stanza_sent_loop (words s) il im [] = Inr (tokens r)"
    from stanza_sent_loop_texts [OF this]
    show "map w_text (filter (\<lambda>w. strip (w_text w) \<noteq> []) (words s)) = map t_text (tokens r)"
      by simp
  qed
  from list_all2_map_eq [OF this] show ?thesis by simp
qed


lemma stanza_to_tokens_total:
  "\<forall>s \<in> set (doc_sentences doc). \<forall>w \<in> set (words s). \<forall>n. feats w \<noteq> PyInt n \<Longrightarrow>
   \<exists>out. stanza_to_tokens doc il im = Inr out"
  unfolding stanza_to_tokens_def by (rule stanza_doc_loop_total)

subsection \<open>The example inputs evaluated\<close>

lemmas ex_defs = ex_token_der_def ex_token_space_def ex_token_hund_def ex_spacy_doc_def
  ex_word_der_def ex_word_space_def ex_word_hund_def ex_stanza_doc_def ex_request_def
  ex_globals_def ex_word_eq_def ex_word_nolemma_def ex_word_intfeats_def ex_out_der_def
  ex_out_hund_def
  ex_spacy_sentences_def ex_stanza_sentences_def

lemma ex_strip: "strip (req_text (ex_request il im)) = ''Der Hund''"
  by (simp add: ex_request_def strip_def py_isspace_def)

lemma ex_flags: "includeLemma (ex_request il im) = il" "includeMorph (ex_request il im) = im"
  by (simp_all add: ex_request_def)

text \<open>The example spaCy tokens obey the engine's token contract.\<close>

lemma ex_spacy_wf:
  "spacy_token_wf ex_token_der" "spacy_token_wf ex_token_space" "spacy_token_wf ex_token_hund"
  by (simp_all add: spacy_token_wf_def str_isspace_def py_isspace_def ex_token_der_def
        ex_token_space_def ex_token_hund_def)

lemma ex_spacy_tokens: "spacy_to_tokens ex_spacy_doc il im = Inr (ex_spacy_sentences il im)"
  by (simp add: ex_defs spacy_to_tokens_def spacy_token_dict_def spacy_morph_def)

lemma ex_stanza_tokens: "stanza_to_tokens ex_stanza_doc il im = Inr (ex_stanza_sentences il im)"
  by (simp add: ex_defs stanza_to_tokens_def stanza_feats_def py_index_def strip_def
        py_isspace_def)

section \<open>The handler\<close>

text \<open>\<^verbatim>\<open>req.text or ""\<close> is the text itself, so the handler branches on the trimmed request text.\<close>

lemma tag_unfold:
  "tag g req =
     (if strip (req_text req) = [] then ([], Inl \<lparr>status_code = 400, detail = ''Empty text''\<rparr>)
      else
        (case tag_spacy g (strip (req_text req)) req of
           (tr1, Some r) \<Rightarrow> (tr1, Inr r)
         | (tr1, None) \<Rightarrow>
             (case tag_stanza g (strip (req_text req)) req of
                (tr2, Some r) \<Rightarrow> (tr1 @ tr2, Inr r)
              | (tr2, None) \<Rightarrow>
                  (tr1 @ tr2,
                   Inl \<lparr>status_code = 503, detail = ''No tagging provider available''\<rparr>))))"
proof (cases "req_text req = []")
  case True
  then show ?thesis by (simp add: tag_def strip_def)
next
  case False
  then show ?thesis by (simp add: tag_def Let_def)
qed

text \<open>A request that returns a response was answered by exactly one of the two engines.\<close>

lemma tag_Inr_cases:
  assumes "snd (tag g req) = Inr resp"
  shows "(\<exists>nlp doc. nlp_spacy g = Some nlp \<and> nlp (strip (req_text req)) = Inr doc \<and>
            spacy_to_tokens doc (includeLemma req) (includeMorph req) = Inr (sentences resp) \<and>
            \<not> transformer resp \<and> model resp = SPACY_MODEL g)
       \<or> (\<exists>nlp doc. nlp_stanza g = Some nlp \<and> nlp (strip (req_text req)) = Inr doc \<and>
            stanza_to_tokens doc (includeLemma req) (includeMorph req) = Inr (sentences resp) \<and>
            transformer resp \<and> model resp = ''stanza-de'')"
  using assms
  by (auto simp: tag_unfold tag_spacy_def tag_stanza_def STANZA_LANG_def
           split: if_splits option.splits sum.splits prod.splits)

text \<open>The example request answered by each engine alone.\<close>

lemma ex_tag_spacy:
  "tag (ex_globals (Some (\<lambda>t. Inr ex_spacy_doc)) s) (ex_request il im) =
     ([Call_spacy ''Der Hund''],
      Inr \<lparr>model = ''de_core_news_lg'', transformer = False,
           sentences = ex_spacy_sentences il im\<rparr>)"
  by (simp add: tag_unfold tag_spacy_def ex_strip ex_flags ex_spacy_tokens ex_globals_def)

lemma ex_tag_stanza:
  "tag (ex_globals None (Some (\<lambda>t. Inr ex_stanza_doc))) (ex_request il im) =
     ([Call_stanza ''Der Hund''],
      Inr \<lparr>model = ''stanza-de'', transformer = True,
           sentences = ex_stanza_sentences il im\<rparr>)"
  by (simp add: tag_unfold tag_spacy_def tag_stanza_def ex_strip ex_flags ex_stanza_tokens
        ex_globals_def STANZA_LANG_def)

section \<open>Empty input\<close>

text \<open>
  C6. A request whose text is empty after trimming is answered with status 400 and detail
  "Empty text", whatever pipelines are loaded, and its trace is empty: no pipeline was
  invoked.
\<close>

theorem C6_empty_text_400:
  "strip (req_text req) = [] \<Longrightarrow>
   tag g req = ([], Inl \<lparr>status_code = 400, detail = ''Empty text''\<rparr>)"
  by (simp add: tag_unfold)

theorem C6_empty_text_400_witness:
  "strip (req_text \<lparr>req_text = ''  '', splitSentences = True, includeLemma = True,
                     includeMorph = True\<rparr>) = []
   \<and> tag \<lparr>SPACY_MODEL = ''de_core_news_lg'',
          nlp_spacy = Some (\<lambda>t. Inr \<lparr>sents = Inr []\<rparr>),
          nlp_stanza = Some (\<lambda>t. Inr \<lparr>doc_sentences = []\<rparr>)\<rparr>
        \<lparr>req_text = ''  '', splitSentences = True, includeLemma = True, includeMorph = True\<rparr>
     = ([], Inl \<lparr>status_code = 400, detail = ''Empty text''\<rparr>)"
proof -
  have h: "strip (req_text \<lparr>req_text = ''  '', splitSentences = True, includeLemma = True,
                     includeMorph = True\<rparr>) = []"
    by (simp add: strip_def py_isspace_def)
  show ?thesis using h C6_empty_text_400 [OF h] by simp
qed

section \<open>The two-tier fallback\<close>

text \<open>
  C1. For a text that is non-empty after trimming, when the spaCy pipeline is loaded and
  neither its invocation nor \<^verbatim>\<open>spacy_to_tokens\<close> raises, the handler invokes spaCy only and
  returns the response with \<^verbatim>\<open>transformer\<close> false and \<^verbatim>\<open>model\<close> equal to \<^verbatim>\<open>SPACY_MODEL\<close>, the
  identifier read from the environment at module start.
\<close>

theorem C1_primary_answers:
  assumes "strip (req_text req) \<noteq> []"
    and "nlp_spacy g = Some nlp"
    and "nlp (strip (req_text req)) = Inr doc"
    and "spacy_to_tokens doc (includeLemma req) (includeMorph req) = Inr sents_v"
  shows "tag g req =
           ([Call_spacy (strip (req_text req))],
            Inr \<lparr>model = SPACY_MODEL g, transformer = False, sentences = sents_v\<rparr>)"
  using assms by (simp add: tag_unfold tag_spacy_def)

theorem C1_primary_answers_witness:
  "tag (startup [''SPACY_MODEL'' \<mapsto> ''de_core_news_sm''] (\<lambda>m. Inr (\<lambda>t. Inr ex_spacy_doc))
          (\<lambda>l. Inl (Exception ''no model'')))
       (ex_request True True) =
     ([Call_spacy ''Der Hund''],
      Inr \<lparr>model = ''de_core_news_sm'', transformer = False,
           sentences = ex_spacy_sentences True True\<rparr>)"
  using C1_primary_answers
    [where req = "ex_request True True"
       and g = "startup [''SPACY_MODEL'' \<mapsto> ''de_core_news_sm'']
                  (\<lambda>m. Inr (\<lambda>t. Inr ex_spacy_doc)) (\<lambda>l. Inl (Exception ''no model''))"
       and nlp = "\<lambda>t. Inr ex_spacy_doc" and doc = ex_spacy_doc
       and sents_v = "ex_spacy_sentences True True"]
  by (simp add: ex_strip ex_flags ex_spacy_tokens startup_def getenv_def)

text \<open>
  C2. For a text that is non-empty after trimming, when spaCy is not loaded, or its
  invocation raises, or its normalization raises, and the Stanza pipeline is loaded and
  neither its invocation nor \<^verbatim>\<open>stanza_to_tokens\<close> raises, the handler returns the response
  with \<^verbatim>\<open>transformer\<close> true and \<^verbatim>\<open>model\<close> "stanza-de". The pipeline invocations of the request
  are the single spaCy call (when spaCy is loaded) followed by the single Stanza call:
  Stanza runs after spaCy has failed, and spaCy is not tried again.
\<close>

theorem C2_secondary_answers:
  assumes "strip (req_text req) = tx" and "tx \<noteq> []"
    and "nlp_spacy g = None \<or>
         (\<exists>nlp. nlp_spacy g = Some nlp \<and>
            ((\<exists>e. nlp tx = Inl e) \<or>
             (\<exists>doc e. nlp tx = Inr doc \<and>
                spacy_to_tokens doc (includeLemma req) (includeMorph req) = Inl e)))"
    and "nlp_stanza g = Some nlp2"
    and "nlp2 tx = Inr doc2"
    and "stanza_to_tokens doc2 (includeLemma req) (includeMorph req) = Inr sents_v"
  shows "snd (tag g req) =
           Inr \<lparr>model = ''stanza-de'', transformer = True, sentences = sents_v\<rparr> \<and>
         calls (fst (tag g req)) =
           (if nlp_spacy g = None then [] else [Call_spacy tx]) @ [Call_stanza tx]"
  using assms
  by (auto simp: tag_unfold tag_spacy_def tag_stanza_def STANZA_LANG_def calls_def)

theorem C2_secondary_answers_witness:
  "snd (tag (ex_globals (Some (\<lambda>t. Inl (Exception ''boom''))) (Some (\<lambda>t. Inr ex_stanza_doc)))
          (ex_request False True)) =
     Inr \<lparr>model = ''stanza-de'', transformer = True,
          sentences = ex_stanza_sentences False True\<rparr> \<and>
   calls (fst (tag (ex_globals (Some (\<lambda>t. Inl (Exception ''boom'')))
                      (Some (\<lambda>t. Inr ex_stanza_doc)))
                 (ex_request False True))) =
     [Call_spacy ''Der Hund'', Call_stanza ''Der Hund'']"
  using C2_secondary_answers
    [where req = "ex_request False True" and tx = "''Der Hund''"
       and g = "ex_globals (Some (\<lambda>t. Inl (Exception ''boom''))) (Some (\<lambda>t. Inr ex_stanza_doc))"
       and ?nlp2.0 = "\<lambda>t. Inr ex_stanza_doc" and ?doc2.0 = ex_stanza_doc
       and sents_v = "ex_stanza_sentences False True"]
  by (simp add: ex_strip ex_flags ex_stanza_tokens ex_globals_def)

text \<open>
  C7. For a text that is non-empty after trimming, when each pipeline is either not
  loaded or raises (in its invocation or its normalization), the handler raises the
  HTTPException with status 503 and detail "No tagging provider available".
\<close>

theorem C7_no_provider_503:
  assumes "strip (req_text req) = tx" and "tx \<noteq> []"
    and "nlp_spacy g = None \<or>
         (\<exists>nlp. nlp_spacy g = Some nlp \<and>
            ((\<exists>e. nlp tx = Inl e) \<or>
             (\<exists>doc e. nlp tx = Inr doc \<and>
                spacy_to_tokens doc (includeLemma req) (includeMorph req) = Inl e)))"
    and "nlp_stanza g = None \<or>
         (\<exists>nlp. nlp_stanza g = Some nlp \<and>
            ((\<exists>e. nlp tx = Inl e) \<or>
             (\<exists>doc e. nlp tx = Inr doc \<and>
                stanza_to_tokens doc (includeLemma req) (includeMorph req) = Inl e)))"
  shows "snd (tag g req) =
           Inl \<lparr>status_code = 503, detail = ''No tagging provider available''\<rparr>"
  using assms
  by (auto simp: tag_unfold tag_spacy_def tag_stanza_def)

theorem C7_no_provider_503_witness:
  "snd (tag (ex_globals (Some (\<lambda>t. Inr \<lparr>sents = Inl (Exception ''no sentence boundaries'')\<rparr>))
               (Some (\<lambda>t. Inl (Exception ''boom''))))
          (ex_request True True)) =
     Inl \<lparr>status_code = 503, detail = ''No tagging provider available''\<rparr> \<and>
   snd (tag (ex_globals None None) (ex_request True True)) =
     Inl \<lparr>status_code = 503, detail = ''No tagging provider available''\<rparr>"
  using C7_no_provider_503
    [where req = "ex_request True True" and tx = "''Der Hund''"
       and g = "ex_globals (Some (\<lambda>t. Inr \<lparr>sents = Inl (Exception ''no sentence boundaries'')\<rparr>))
                  (Some (\<lambda>t. Inl (Exception ''boom'')))"]
    C7_no_provider_503
    [where req = "ex_request True True" and tx = "''Der Hund''" and g = "ex_globals None None"]
  by (simp add: ex_strip ex_flags ex_globals_def spacy_to_tokens_def)

section \<open>The unified tokens\<close>

text \<open>
  C3, as stated, fails: the comprehension takes the second piece of \<^verbatim>\<open>kv.split("=")\<close>, which
  splits at every separator, so the pair \<^verbatim>\<open>K=a=b\<close> stores \<^verbatim>\<open>a\<close> under \<^verbatim>\<open>K\<close>, not \<^verbatim>\<open>a=b\<close>.
\<close>

theorem C3_feats_value_cut_counterexample:
  "stanza_feats ex_word_eq True = Inr [(''K'', ''a'')] \<and>
   stanza_feats ex_word_eq True \<noteq> Inr [(''K'', ''a=b'')]"
  by (simp add: ex_word_eq_def stanza_feats_def py_index_def)

text \<open>
  C3, amended. With \<^verbatim>\<open>include_morph\<close> true and a non-empty feature string, the Stanza
  normalizer builds the morph dict pair by pair over the pieces between \<^verbatim>\<open>|\<close>, skipping
  every pair without \<^verbatim>\<open>=\<close>. A pair's key is its text before the first \<^verbatim>\<open>=\<close>; its value is
  the text between the first \<^verbatim>\<open>=\<close> and the next one (or the end of the pair). A key stored
  again keeps its place and takes the later value.
\<close>

theorem C3_feats_parse:
  assumes "feats w = PyStr f" and "f \<noteq> []"
  shows "stanza_feats w True =
           Inr (fold (\<lambda>kv. AList.update
                        (takeWhile (\<lambda>x. x \<noteq> CHR ''='') kv)
                        (takeWhile (\<lambda>x. x \<noteq> CHR ''='') (tl (dropWhile (\<lambda>x. x \<noteq> CHR ''='') kv))))
                  (filter (\<lambda>kv. CHR ''='' \<in> set kv) (split CHR ''|'' f)) [])"
  using assms by (simp add: stanza_feats_def feats_comprehension_eq)

theorem C3_feats_parse_witness:
  "stanza_feats \<lparr>w_text = ''Hunde'', upos = ''NOUN'', w_lemma = Some ''Hund'',
                 feats = PyStr ''Case=Nom|Plur|K=a=b|Case=Acc''\<rparr> True =
     Inr [(''Case'', ''Acc''), (''K'', ''a'')]"
  using C3_feats_parse
    [where w = "\<lparr>w_text = ''Hunde'', upos = ''NOUN'', w_lemma = Some ''Hund'',
                 feats = PyStr ''Case=Nom|Plur|K=a=b|Case=Acc''\<rparr>"
       and f = "''Case=Nom|Plur|K=a=b|Case=Acc''"]
  by simp

text \<open>
  C4, as stated, fails on the secondary path: \<^verbatim>\<open>stanza_to_tokens\<close> passes \<^verbatim>\<open>w.lemma\<close> through
  unchecked, so a word without a lemma gives a token whose \<^verbatim>\<open>lemma\<close> is \<^verbatim>\<open>None\<close> although
  \<^verbatim>\<open>includeLemma\<close> is true.
\<close>

theorem C4_lemma_none_counterexample:
  "includeLemma (ex_request True True) \<and>
   snd (tag (ex_globals None (Some (\<lambda>t. Inr \<lparr>doc_sentences = [\<lparr>words = [ex_word_nolemma]\<rparr>]\<rparr>)))
          (ex_request True True)) =
     Inr \<lparr>model = ''stanza-de'', transformer = True,
          sentences = [\<lparr>tokens = [\<lparr>t_text = ''Xyz'', t_pos = ''X'', t_lemma = None,
                                   t_morph = []\<rparr>]\<rparr>]\<rparr>"
proof -
  have "stanza_to_tokens \<lparr>doc_sentences = [\<lparr>words = [ex_word_nolemma]\<rparr>]\<rparr> True True =
          Inr [\<lparr>tokens = [\<lparr>t_text = ''Xyz'', t_pos = ''X'', t_lemma = None,
                             t_morph = []\<rparr>]\<rparr>]"
    by (simp add: ex_word_nolemma_def stanza_to_tokens_def stanza_feats_def strip_def
          py_isspace_def)
  then show ?thesis
    by (simp add: tag_unfold tag_spacy_def tag_stanza_def ex_strip ex_flags ex_globals_def
          STANZA_LANG_def)
qed

text \<open>
  C4, amended. In every response, whichever engine answered, a token's \<^verbatim>\<open>lemma\<close> is
  \<^verbatim>\<open>None\<close> (JSON \<^verbatim>\<open>null\<close>, the absent value), never an empty string, when \<^verbatim>\<open>includeLemma\<close> is
  false. When \<^verbatim>\<open>includeLemma\<close> is true the token carries its engine token's lemma
  unchanged: a string on the primary path; on the secondary path the word's lemma, a
  string or \<^verbatim>\<open>None\<close> when the engine gave the word none.
\<close>

theorem C4_lemma_field:
  assumes "snd (tag g req) = Inr resp"
    and "s \<in> set (sentences resp)" and "t \<in> set (tokens s)"
  shows "(\<not> includeLemma req \<longrightarrow> t_lemma t = None \<and> t_lemma t \<noteq> Some []) \<and>
         (includeLemma req \<and> \<not> transformer resp \<longrightarrow>
            (\<exists>nlp doc ss sent e. nlp_spacy g = Some nlp \<and>
               nlp (strip (req_text req)) = Inr doc \<and> sents doc = Inr ss \<and>
               sent \<in> set ss \<and> e \<in> set sent \<and>
               t_text t = s_text e \<and> t_lemma t = Some (s_lemma e))) \<and>
         (includeLemma req \<and> transformer resp \<longrightarrow>
            (\<exists>nlp doc sen w. nlp_stanza g = Some nlp \<and>
               nlp (strip (req_text req)) = Inr doc \<and> sen \<in> set (doc_sentences doc) \<and>
               w \<in> set (words sen) \<and> t_text t = w_text w \<and> t_lemma t = w_lemma w))"
proof -
  from tag_Inr_cases [OF assms(1)] show ?thesis
  proof (elim disjE exE conjE)
    fix nlp doc
    assume n: "nlp_spacy g = Some nlp" "nlp (strip (req_text req)) = Inr doc"
      "\<not> transformer resp"
      and "spacy_to_tokens doc (includeLemma req) (includeMorph req) = Inr (sentences resp)"
    from spacy_token_in [OF this(4) assms(2,3)] obtain ss sent e where
      e: "sents doc = Inr ss" "sent \<in> set ss" "e \<in> set sent"
         "t = spacy_token_dict e (includeLemma req) (includeMorph req)"
      by blast
    from e(4) have l: "t_text t = s_text e"
      "t_lemma t = (if includeLemma req then Some (s_lemma e) else None)"
      by (simp_all add: spacy_token_dict_def)
    show ?thesis
    proof (cases "includeLemma req")
      case True
      with l have "t_text t = s_text e \<and> t_lemma t = Some (s_lemma e)" by simp
      with n e(1,2,3) True show ?thesis by blast
    next
      case False
      with l show ?thesis by simp
    qed
  next
    fix nlp doc
    assume n: "nlp_stanza g = Some nlp" "nlp (strip (req_text req)) = Inr doc"
      "transformer resp"
      and "stanza_to_tokens doc (includeLemma req) (includeMorph req) = Inr (sentences resp)"
    from stanza_token_in [OF this(4) assms(2,3)] obtain sen w where
      w: "sen \<in> set (doc_sentences doc)" "w \<in> set (words sen)" "t_text t = w_text w"
         "t_lemma t = (if includeLemma req then w_lemma w else None)"
      by blast
    show ?thesis
    proof (cases "includeLemma req")
      case True
      with w have "t_text t = w_text w \<and> t_lemma t = w_lemma w" by simp
      with n w(1,2) True show ?thesis by blast
    next
      case False
      with w show ?thesis by simp
    qed
  qed
qed

theorem C4_lemma_field_witness:
  "snd (tag (ex_globals None (Some (\<lambda>t. Inr ex_stanza_doc))) (ex_request False True)) =
     Inr \<lparr>model = ''stanza-de'', transformer = True,
          sentences = ex_stanza_sentences False True\<rparr> \<and>
   ex_out_der False True \<in> set (tokens (hd (ex_stanza_sentences False True))) \<and>
   t_lemma (ex_out_der False True) = None \<and> t_lemma (ex_out_der False True) \<noteq> Some [] \<and>
   snd (tag (ex_globals (Some (\<lambda>t. Inr ex_spacy_doc)) None) (ex_request True True)) =
     Inr \<lparr>model = ''de_core_news_lg'', transformer = False,
          sentences = ex_spacy_sentences True True\<rparr> \<and>
   ex_out_hund True [] \<in> set (tokens (hd (ex_spacy_sentences True True))) \<and>
   (\<exists>e. e \<in> set [ex_token_der, ex_token_space, ex_token_hund] \<and>
      t_lemma (ex_out_hund True []) = Some (s_lemma e)) \<and>
   snd (tag (ex_globals None (Some (\<lambda>t. Inr ex_stanza_doc))) (ex_request True True)) =
     Inr \<lparr>model = ''stanza-de'', transformer = True,
          sentences = ex_stanza_sentences True True\<rparr> \<and>
   ex_out_der True True \<in> set (tokens (hd (ex_stanza_sentences True True))) \<and>
   (\<exists>w. w \<in> set [ex_word_der, ex_word_space, ex_word_hund] \<and>
      t_lemma (ex_out_der True True) = w_lemma w)"
proof -
  have a: "snd (tag (ex_globals None (Some (\<lambda>t. Inr ex_stanza_doc))) (ex_request False True)) =
             Inr \<lparr>model = ''stanza-de'', transformer = True,
                  sentences = ex_stanza_sentences False True\<rparr>"
    by (simp add: ex_tag_stanza)
  have a1: "\<lparr>tokens = [ex_out_der False True, ex_out_hund False [(''Number'', ''Sing'')]]\<rparr>
              \<in> set (sentences \<lparr>model = ''stanza-de'', transformer = True,
                                sentences = ex_stanza_sentences False True\<rparr>)"
    by (simp add: ex_stanza_sentences_def)
  have a2: "ex_out_der False True
              \<in> set (tokens \<lparr>tokens = [ex_out_der False True,
                                        ex_out_hund False [(''Number'', ''Sing'')]]\<rparr>)"
    by simp
  have b: "snd (tag (ex_globals (Some (\<lambda>t. Inr ex_spacy_doc)) None) (ex_request True True)) =
             Inr \<lparr>model = ''de_core_news_lg'', transformer = False,
                  sentences = ex_spacy_sentences True True\<rparr>"
    by (simp add: ex_tag_spacy)
  have b1: "\<lparr>tokens = [ex_out_der True True, ex_out_hund True []]\<rparr>
              \<in> set (sentences \<lparr>model = ''de_core_news_lg'', transformer = False,
                                sentences = ex_spacy_sentences True True\<rparr>)"
    by (simp add: ex_spacy_sentences_def)
  have b2: "ex_out_hund True []
              \<in> set (tokens \<lparr>tokens = [ex_out_der True True, ex_out_hund True []]\<rparr>)"
    by simp
  have c: "snd (tag (ex_globals None (Some (\<lambda>t. Inr ex_stanza_doc))) (ex_request True True)) =
             Inr \<lparr>model = ''stanza-de'', transformer = True,
                  sentences = ex_stanza_sentences True True\<rparr>"
    by (simp add: ex_tag_stanza)
  have c1: "\<lparr>tokens = [ex_out_der True True, ex_out_hund True [(''Number'', ''Sing'')]]\<rparr>
              \<in> set (sentences \<lparr>model = ''stanza-de'', transformer = True,
                                sentences = ex_stanza_sentences True True\<rparr>)"
    by (simp add: ex_stanza_sentences_def)
  have c2: "ex_out_der True True
              \<in> set (tokens \<lparr>tokens = [ex_out_der True True,
                                        ex_out_hund True [(''Number'', ''Sing'')]]\<rparr>)"
    by simp
  have e1: "\<exists>e. e \<in> set [ex_token_der, ex_token_space, ex_token_hund] \<and>
      t_lemma (ex_out_hund True []) = Some (s_lemma e)"
    by (rule exI [of _ ex_token_hund]) (simp add: ex_out_hund_def ex_token_hund_def)
  have e2: "\<exists>w. w \<in> set [ex_word_der, ex_word_space, ex_word_hund] \<and>
      t_lemma (ex_out_der True True) = w_lemma w"
    by (rule exI [of _ ex_word_der]) (simp add: ex_out_der_def ex_word_der_def)
  from C4_lemma_field [OF a a1 a2] C4_lemma_field [OF b b1 b2] C4_lemma_field [OF c c1 c2]
    a b c e1 e2
  show ?thesis by (simp add: ex_flags ex_stanza_sentences_def ex_spacy_sentences_def)
qed

text \<open>
  C8. In every response to a request with \<^verbatim>\<open>includeMorph\<close> false, whichever engine
  answered, every token's \<^verbatim>\<open>morph\<close> is the empty dict.
\<close>

theorem C8_no_morph:
  assumes "\<not> includeMorph req" and "snd (tag g req) = Inr resp"
    and "s \<in> set (sentences resp)" and "t \<in> set (tokens s)"
  shows "t_morph t = []"
proof -
  from tag_Inr_cases [OF assms(2)] show ?thesis
  proof (elim disjE exE conjE)
    fix nlp doc
    assume "spacy_to_tokens doc (includeLemma req) (includeMorph req) = Inr (sentences resp)"
    from spacy_token_in [OF this assms(3,4)] assms(1)
    show ?thesis by (auto simp: spacy_token_dict_def spacy_morph_def)
  next
    fix nlp doc
    assume "stanza_to_tokens doc (includeLemma req) (includeMorph req) = Inr (sentences resp)"
    from stanza_token_in [OF this assms(3,4)] assms(1)
    show ?thesis by (auto simp: stanza_feats_no_morph)
  qed
qed

theorem C8_no_morph_witness:
  "\<not> includeMorph (ex_request True False) \<and>
   snd (tag (ex_globals None (Some (\<lambda>t. Inr ex_stanza_doc))) (ex_request True False)) =
     Inr \<lparr>model = ''stanza-de'', transformer = True,
          sentences = ex_stanza_sentences True False\<rparr> \<and>
   ex_out_der True False \<in> set (tokens (hd (ex_stanza_sentences True False))) \<and>
   t_morph (ex_out_der True False) = [] \<and>
   snd (tag (ex_globals (Some (\<lambda>t. Inr ex_spacy_doc)) None) (ex_request True False)) =
     Inr \<lparr>model = ''de_core_news_lg'', transformer = False,
          sentences = ex_spacy_sentences True False\<rparr> \<and>
   ex_out_hund True [] \<in> set (tokens (hd (ex_spacy_sentences True False))) \<and>
   t_morph (ex_out_hund True []) = []"
proof -
  have f: "\<not> includeMorph (ex_request True False)" by (simp add: ex_flags)
  have a: "snd (tag (ex_globals None (Some (\<lambda>t. Inr ex_stanza_doc))) (ex_request True False)) =
             Inr \<lparr>model = ''stanza-de'', transformer = True,
                  sentences = ex_stanza_sentences True False\<rparr>"
    by (simp add: ex_tag_stanza)
  have a1: "\<lparr>tokens = [ex_out_der True False, ex_out_hund True []]\<rparr>
              \<in> set (sentences \<lparr>model = ''stanza-de'', transformer = True,
                                sentences = ex_stanza_sentences True False\<rparr>)"
    by (simp add: ex_stanza_sentences_def)
  have a2: "ex_out_der True False
              \<in> set (tokens \<lparr>tokens = [ex_out_der True False, ex_out_hund True []]\<rparr>)"
    by simp
  have b: "snd (tag (ex_globals (Some (\<lambda>t. Inr ex_spacy_doc)) None) (ex_request True False)) =
             Inr \<lparr>model = ''de_core_news_lg'', transformer = False,
                  sentences = ex_spacy_sentences True False\<rparr>"
    by (simp add: ex_tag_spacy)
  have b1: "\<lparr>tokens = [ex_out_der True False, ex_out_hund True []]\<rparr>
              \<in> set (sentences \<lparr>model = ''de_core_news_lg'', transformer = False,
                                sentences = ex_spacy_sentences True False\<rparr>)"
    by (simp add: ex_spacy_sentences_def)
  have b2: "ex_out_hund True []
              \<in> set (tokens \<lparr>tokens = [ex_out_der True False, ex_out_hund True []]\<rparr>)"
    by simp
  from C8_no_morph [OF f a a1 a2] C8_no_morph [OF f b b1 b2] f a b
  show ?thesis by (simp add: ex_stanza_sentences_def ex_spacy_sentences_def)
qed

section \<open>Failing morph extraction\<close>




section \<open>Skipped tokens and kept sentences\<close>

text \<open>
  C9. Both normalizers skip the engine tokens whose text is empty or whitespace-only
  after trimming, and nothing else: in every response each sentence carries, in order,
  the texts of exactly those tokens of the engine's sentence that do not trim to the
  empty string, so every token of a response has a text that is non-empty after
  trimming. The secondary normalizer tests the trimmed text itself. The primary one tests
  the engine's flag \<^verbatim>\<open>is_space\<close>, which is \<^verbatim>\<open>text.isspace()\<close> on the tokens a spaCy document
  holds; that contract of the engine is the second premise.
\<close>

theorem C9_blank_tokens_skipped:
  assumes "snd (tag g req) = Inr resp"
    and "\<forall>nlp doc ss sent e. nlp_spacy g = Some nlp \<and> nlp (strip (req_text req)) = Inr doc \<and>
           sents doc = Inr ss \<and> sent \<in> set ss \<and> e \<in> set sent \<longrightarrow> spacy_token_wf e"
  shows "(\<forall>s \<in> set (sentences resp). \<forall>t \<in> set (tokens s). strip (t_text t) \<noteq> []) \<and>
         (\<not> transformer resp \<longrightarrow>
            (\<exists>nlp doc ss. nlp_spacy g = Some nlp \<and> nlp (strip (req_text req)) = Inr doc \<and>
               sents doc = Inr ss \<and>
               map (\<lambda>s. map t_text (tokens s)) (sentences resp) =
                 map (\<lambda>sent. map s_text (filter (\<lambda>e. strip (s_text e) \<noteq> []) sent)) ss)) \<and>
         (transformer resp \<longrightarrow>
            (\<exists>nlp doc. nlp_stanza g = Some nlp \<and> nlp (strip (req_text req)) = Inr doc \<and>
               map (\<lambda>s. map t_text (tokens s)) (sentences resp) =
                 map (\<lambda>sen. map w_text (filter (\<lambda>w. strip (w_text w) \<noteq> []) (words sen)))
                   (doc_sentences doc)))"
proof -
  from tag_Inr_cases [OF assms(1)] show ?thesis
  proof (elim disjE exE conjE)
    fix nlp doc
    assume n: "nlp_spacy g = Some nlp" "nlp (strip (req_text req)) = Inr doc"
      and nt: "\<not> transformer resp"
      and st: "spacy_to_tokens doc (includeLemma req) (includeMorph req) = Inr (sentences resp)"
    from spacy_to_tokens_Inr [OF st] obtain ss where
      ss: "sents doc = Inr ss"
          "sentences resp =
             map (\<lambda>sent. \<lparr>tokens = map (\<lambda>t. spacy_token_dict t (includeLemma req)
                                               (includeMorph req))
                                     (filter (\<lambda>t. \<not> is_space t) sent)\<rparr>) ss"
      by blast
    have wf: "\<And>sent e. sent \<in> set ss \<Longrightarrow> e \<in> set sent \<Longrightarrow> spacy_token_wf e"
      using assms(2) n ss(1) by blast
    have flt: "\<And>sent. sent \<in> set ss \<Longrightarrow>
        filter (\<lambda>t. \<not> is_space t) sent = filter (\<lambda>e. strip (s_text e) \<noteq> []) sent"
    proof -
      fix sent assume "sent \<in> set ss"
      then have "\<And>e. e \<in> set sent \<Longrightarrow> (\<not> is_space e) = (strip (s_text e) \<noteq> [])"
        using wf spacy_token_wf_skip by blast
      then show "filter (\<lambda>t. \<not> is_space t) sent = filter (\<lambda>e. strip (s_text e) \<noteq> []) sent"
        by (rule filter_cong [OF refl])
    qed
    have texts: "map (\<lambda>s. map t_text (tokens s)) (sentences resp) =
        map (\<lambda>sent. map s_text (filter (\<lambda>e. strip (s_text e) \<noteq> []) sent)) ss"
      using flt by (simp add: ss(2) spacy_token_dict_def comp_def)
    have "\<forall>s \<in> set (sentences resp). \<forall>t \<in> set (tokens s). strip (t_text t) \<noteq> []"
    proof (intro ballI)
      fix s t assume s: "s \<in> set (sentences resp)" and t: "t \<in> set (tokens s)"
      from spacy_token_in [OF st s t] obtain ss' sent e where
        e: "sents doc = Inr ss'" "sent \<in> set ss'" "e \<in> set sent" "\<not> is_space e"
           "t = spacy_token_dict e (includeLemma req) (includeMorph req)"
        by blast
      from e(1) ss(1) have "ss' = ss" by simp
      with e(2,3) wf have "spacy_token_wf e" by blast
      with e(4) have "strip (s_text e) \<noteq> []" using spacy_token_wf_skip by blast
      with e(5) show "strip (t_text t) \<noteq> []" by (simp add: spacy_token_dict_def)
    qed
    with n nt ss(1) texts show ?thesis by blast
  next
    fix nlp doc
    assume n: "nlp_stanza g = Some nlp" "nlp (strip (req_text req)) = Inr doc"
      and tr: "transformer resp"
      and st: "stanza_to_tokens doc (includeLemma req) (includeMorph req) = Inr (sentences resp)"
    note texts = stanza_to_tokens_texts [OF st]
    have "\<forall>s \<in> set (sentences resp). \<forall>t \<in> set (tokens s). strip (t_text t) \<noteq> []"
    proof (intro ballI)
      fix s t assume s: "s \<in> set (sentences resp)" and t: "t \<in> set (tokens s)"
      from stanza_token_in [OF st s t] show "strip (t_text t) \<noteq> []" by auto
    qed
    with n tr texts show ?thesis by blast
  qed
qed

theorem C9_blank_tokens_skipped_witness:
  "spacy_token_wf ex_token_der \<and> spacy_token_wf ex_token_space \<and>
   spacy_token_wf ex_token_hund \<and>
   snd (tag (ex_globals (Some (\<lambda>t. Inr ex_spacy_doc)) None) (ex_request True True)) =
     Inr \<lparr>model = ''de_core_news_lg'', transformer = False,
          sentences = ex_spacy_sentences True True\<rparr> \<and>
   map (\<lambda>s. map t_text (tokens s)) (ex_spacy_sentences True True) = [[''Der'', ''Hund''], []] \<and>
   strip ''Der'' \<noteq> [] \<and> strip ''Hund'' \<noteq> [] \<and>
   snd (tag (ex_globals None (Some (\<lambda>t. Inr ex_stanza_doc))) (ex_request True True)) =
     Inr \<lparr>model = ''stanza-de'', transformer = True,
          sentences = ex_stanza_sentences True True\<rparr> \<and>
   map (\<lambda>s. map t_text (tokens s)) (ex_stanza_sentences True True) = [[''Der'', ''Hund''], []]"
proof -
  let ?g = "ex_globals (Some (\<lambda>t. Inr ex_spacy_doc)) None"
  let ?h = "ex_globals None (Some (\<lambda>t. Inr ex_stanza_doc))"
  let ?r = "ex_request True True"
  have a: "snd (tag ?g ?r) =
             Inr \<lparr>model = ''de_core_news_lg'', transformer = False,
                  sentences = ex_spacy_sentences True True\<rparr>"
    by (simp add: ex_tag_spacy)
  have ai: "\<forall>nlp doc ss sent e. nlp_spacy ?g = Some nlp \<and> nlp (strip (req_text ?r)) = Inr doc \<and>
           sents doc = Inr ss \<and> sent \<in> set ss \<and> e \<in> set sent \<longrightarrow> spacy_token_wf e"
    using ex_spacy_wf by (auto simp: ex_globals_def ex_spacy_doc_def)
  have b: "snd (tag ?h ?r) =
             Inr \<lparr>model = ''stanza-de'', transformer = True,
                  sentences = ex_stanza_sentences True True\<rparr>"
    by (simp add: ex_tag_stanza)
  have bi: "\<forall>nlp doc ss sent e. nlp_spacy ?h = Some nlp \<and> nlp (strip (req_text ?r)) = Inr doc \<and>
           sents doc = Inr ss \<and> sent \<in> set ss \<and> e \<in> set sent \<longrightarrow> spacy_token_wf e"
    by (simp add: ex_globals_def)
  note ca = C9_blank_tokens_skipped [OF a ai]
  note cb = C9_blank_tokens_skipped [OF b bi]
  from ca have t1: "\<forall>s \<in> set (ex_spacy_sentences True True). \<forall>t \<in> set (tokens s).
      strip (t_text t) \<noteq> []"
    by simp
  then have n1: "strip ''Der'' \<noteq> [] \<and> strip ''Hund'' \<noteq> []"
    by (simp add: ex_spacy_sentences_def ex_out_der_def ex_out_hund_def)
  from ca have m1: "map (\<lambda>s. map t_text (tokens s)) (ex_spacy_sentences True True) =
      [[''Der'', ''Hund''], []]"
    by (simp add: ex_spacy_sentences_def ex_out_der_def ex_out_hund_def)
  from cb have m2: "map (\<lambda>s. map t_text (tokens s)) (ex_stanza_sentences True True) =
      [[''Der'', ''Hund''], []]"
    by (simp add: ex_stanza_sentences_def ex_out_der_def ex_out_hund_def)
  from ex_spacy_wf a b n1 m1 m2 show ?thesis by simp
qed

text \<open>
  C10. Each normalizer returns one sentence per engine sentence, in the engine's order:
  the output has the length of the engine's sentence list and its i-th entry holds the
  tokens the inner loop yields for the i-th engine sentence. A sentence all of whose
  tokens are skipped (flagged \<^verbatim>\<open>is_space\<close> for spaCy, empty after trimming for Stanza) is
  kept, with an empty token list. \<^verbatim>\<open>spacy_to_tokens\<close> returns whenever the document's
  sentences can be iterated, \<^verbatim>\<open>stanza_to_tokens\<close> whenever every word's features are a
  string or \<^verbatim>\<open>None\<close>.
\<close>

theorem C10_sentences_preserved:
  "(sents doc = Inr ss \<longrightarrow>
      (\<exists>out. spacy_to_tokens doc il im = Inr out \<and> length out = length ss \<and>
         (\<forall>i < length ss.
            tokens (out ! i) = spacy_sent_loop (ss ! i) il im [] \<and>
            ((\<forall>t \<in> set (ss ! i). is_space t) \<longrightarrow> tokens (out ! i) = [])))) \<and>
   (stanza_to_tokens sdoc il im = Inr sout \<longrightarrow>
      length sout = length (doc_sentences sdoc) \<and>
      (\<forall>i < length (doc_sentences sdoc).
         stanza_sent_loop (words (doc_sentences sdoc ! i)) il im [] = Inr (tokens (sout ! i)) \<and>
         ((\<forall>w \<in> set (words (doc_sentences sdoc ! i)). strip (w_text w) = []) \<longrightarrow>
            tokens (sout ! i) = []))) \<and>
   ((\<forall>s \<in> set (doc_sentences sdoc). \<forall>w \<in> set (words s). \<forall>n. feats w \<noteq> PyInt n) \<longrightarrow>
      (\<exists>sout. stanza_to_tokens sdoc il im = Inr sout))"
proof (intro conjI impI)
  assume "sents doc = Inr ss"
  then show "\<exists>out. spacy_to_tokens doc il im = Inr out \<and> length out = length ss \<and>
         (\<forall>i < length ss.
            tokens (out ! i) = spacy_sent_loop (ss ! i) il im [] \<and>
            ((\<forall>t \<in> set (ss ! i). is_space t) \<longrightarrow> tokens (out ! i) = []))"
    by (simp add: spacy_to_tokens_def spacy_doc_loop_eq spacy_sent_loop_eq filter_empty_conv)
next
  assume so: "stanza_to_tokens sdoc il im = Inr sout"
  note a2 = stanza_to_tokens_all2 [OF so]
  then show len: "length sout = length (doc_sentences sdoc)"
    by (simp add: list_all2_lengthD)
  show "\<forall>i < length (doc_sentences sdoc).
         stanza_sent_loop (words (doc_sentences sdoc ! i)) il im [] = Inr (tokens (sout ! i)) \<and>
         ((\<forall>w \<in> set (words (doc_sentences sdoc ! i)). strip (w_text w) = []) \<longrightarrow>
            tokens (sout ! i) = [])"
  proof (intro allI impI conjI)
    fix i assume i: "i < length (doc_sentences sdoc)"
    with a2 show run: "stanza_sent_loop (words (doc_sentences sdoc ! i)) il im [] =
        Inr (tokens (sout ! i))"
      by (simp add: list_all2_conv_all_nth)
    assume ws: "\<forall>w \<in> set (words (doc_sentences sdoc ! i)). strip (w_text w) = []"
    show "tokens (sout ! i) = []"
    proof (rule ccontr)
      assume "tokens (sout ! i) \<noteq> []"
      then obtain t where "t \<in> set (tokens (sout ! i))" by (cases "tokens (sout ! i)") auto
      from stanza_sent_loop_tokens [OF run this] ws show False by auto
    qed
  qed
next
  assume "\<forall>s \<in> set (doc_sentences sdoc). \<forall>w \<in> set (words s). \<forall>n. feats w \<noteq> PyInt n"
  then show "\<exists>sout. stanza_to_tokens sdoc il im = Inr sout" by (rule stanza_to_tokens_total)
qed

theorem C10_sentences_preserved_witness:
  "sents ex_spacy_doc = Inr [[ex_token_der, ex_token_space, ex_token_hund], [ex_token_space]] \<and>
   is_space ex_token_space \<and>
   (\<exists>out. spacy_to_tokens ex_spacy_doc True True = Inr out \<and> length out = 2 \<and>
      tokens (out ! 1) = []) \<and>
   words (doc_sentences ex_stanza_doc ! 1) = [ex_word_space] \<and>
   strip (w_text ex_word_space) = [] \<and>
   feats ex_word_der = PyStr ''Case=Nom|Gender=Masc'' \<and> feats ex_word_space = PyNone \<and>
   feats ex_word_hund = PyStr ''Number=Sing'' \<and>
   (\<exists>sout. stanza_to_tokens ex_stanza_doc True True = Inr sout \<and> length sout = 2 \<and>
      tokens (sout ! 1) = [])"
proof -
  let ?ss = "[[ex_token_der, ex_token_space, ex_token_hund], [ex_token_space]]"
  have h: "sents ex_spacy_doc = Inr ?ss" by (simp add: ex_spacy_doc_def)
  have w1: "\<forall>t \<in> set (?ss ! 1). is_space t" by (simp add: ex_token_space_def)
  have w2: "\<forall>w \<in> set (words (doc_sentences ex_stanza_doc ! 1)). strip (w_text w) = []"
    by (simp add: ex_stanza_doc_def ex_word_space_def strip_def py_isspace_def)
  have l2: "length (doc_sentences ex_stanza_doc) = 2" by (simp add: ex_stanza_doc_def)
  have fs: "feats ex_word_der = PyStr ''Case=Nom|Gender=Masc''" "feats ex_word_space = PyNone"
    "feats ex_word_hund = PyStr ''Number=Sing''"
    by (simp_all add: ex_word_der_def ex_word_space_def ex_word_hund_def)
  have ni: "\<forall>s \<in> set (doc_sentences ex_stanza_doc). \<forall>w \<in> set (words s). \<forall>n. feats w \<noteq> PyInt n"
    using fs by (simp add: ex_stanza_doc_def)
  note c = C10_sentences_preserved
    [where doc = ex_spacy_doc and il = True and im = True and sdoc = ex_stanza_doc
       and ss = ?ss]
  from c h obtain out where
    o: "spacy_to_tokens ex_spacy_doc True True = Inr out" "length out = length ?ss"
       "\<forall>i < length ?ss. tokens (out ! i) = spacy_sent_loop (?ss ! i) True True [] \<and>
            ((\<forall>t \<in> set (?ss ! i). is_space t) \<longrightarrow> tokens (out ! i) = [])"
    by blast
  from o(3) [rule_format, of 1] w1 have o1: "tokens (out ! 1) = []" by simp
  from c ni obtain sout where so: "stanza_to_tokens ex_stanza_doc True True = Inr sout"
    by blast
  from c [where sout = sout] so have
    so2: "length sout = length (doc_sentences ex_stanza_doc)"
        "\<forall>i < length (doc_sentences ex_stanza_doc).
           stanza_sent_loop (words (doc_sentences ex_stanza_doc ! i)) True True [] =
             Inr (tokens (sout ! i)) \<and>
           ((\<forall>w \<in> set (words (doc_sentences ex_stanza_doc ! i)). strip (w_text w) = []) \<longrightarrow>
              tokens (sout ! i) = [])"
    by blast+
  from so2(2) [rule_format, of 1] w2 l2 have so1: "tokens (sout ! 1) = []" by simp
  have "\<exists>out. spacy_to_tokens ex_spacy_doc True True = Inr out \<and> length out = 2 \<and>
      tokens (out ! 1) = []"
    using o(1,2) o1 by simp
  moreover have "\<exists>sout. stanza_to_tokens ex_stanza_doc True True = Inr sout \<and>
      length sout = 2 \<and> tokens (sout ! 1) = []"
    using so so2(1) so1 l2 by simp
  moreover have "is_space ex_token_space" using w1 by simp
  moreover have "words (doc_sentences ex_stanza_doc ! 1) = [ex_word_space]"
    by (simp add: ex_stanza_doc_def)
  moreover have "strip (w_text ex_word_space) = []"
    by (simp add: ex_word_space_def strip_def py_isspace_def)
  ultimately show ?thesis using h fs by blast
qed

end
